theory Spec2Isabelle
  imports Main "HOL-Library.Word"
begin

section \<open>The accounts app's passkey service (web/apps/accounts/src/services/passkey.ts)\<close>

text \<open>
  The module is a sequence of calls to collaborators: the token store, the HTTP
  transport, the browser's credential API and the binary encoder. Each exported
  function is embedded as a function from an environment (the collaborators' answers)
  to the list of effects it performs, in order, and its outcome: a thrown value
  (\<open>Inl\<close>) or a returned one (\<open>Inr\<close>).
\<close>

subsection \<open>Thrown values\<close>

datatype error =
    Error string \<comment> \<open>\<open>new Error(message)\<close>\<close>
  | MalformedEncodingError \<comment> \<open>the decoder's failure on invalid text\<close>
  | RequiredValueMissing \<comment> \<open>thrown by \<open>ensure\<close> on null or undefined\<close>
  | Rejected string string \<comment> \<open>a value thrown by a collaborator: its name and message\<close>

subsection \<open>The binary encoder\<close>

type_synonym byte = "8 word"

text \<open>
  Modelled from the spec: \<open>toB64URLSafeNoPadding\<close> (imported from
  @ente/shared/crypto/internal/libsodium) and \<open>_sodium.from_base64\<close> (libsodium-wrappers)
  are not among the source files. The spec (4.1) gives their contract:
  \<open>encode\<close> produces a URL-safe, padding-free textual representation of a byte sequence,
  \<open>decode\<close> is its exact inverse, and decoding invalid input signals a
  MalformedEncodingError. The definitions below are the base64 encoding over the URL-safe
  alphabet, three bytes to four characters, with no padding characters; the decoder
  refuses characters outside the alphabet, a dangling single character, and a final
  character with unused bits set.
\<close>

definition b64_alphabet :: string where
  "b64_alphabet = ''ABCDEFGHIJKLMNOPQRSTUVWXYZabcdefghijklmnopqrstuvwxyz0123456789-_''"

definition enc_char :: "nat \<Rightarrow> char" where
  "enc_char n = b64_alphabet ! (n mod 64)"

definition dec_char :: "char \<Rightarrow> nat option" where
  "dec_char c = map_of (zip b64_alphabet [0 ..< 64]) c"

fun sextets :: "nat list \<Rightarrow> nat list" where
  "sextets (a # b # c # rest) =
     [a div 4, (a mod 4) * 16 + b div 16, (b mod 16) * 4 + c div 64, c mod 64] @ sextets rest"
| "sextets [a, b] = [a div 4, (a mod 4) * 16 + b div 16, (b mod 16) * 4]"
| "sextets [a] = [a div 4, (a mod 4) * 16]"
| "sextets [] = []"

fun octets :: "nat list \<Rightarrow> error + nat list" where
  "octets (p # q # r # s # rest) =
     (case octets rest of
        Inl e \<Rightarrow> Inl e
      | Inr bs \<Rightarrow> Inr ([p * 4 + q div 16, (q mod 16) * 16 + r div 4, (r mod 4) * 64 + s] @ bs))"
| "octets [p, q, r] =
     (if r mod 4 = 0 then Inr [p * 4 + q div 16, (q mod 16) * 16 + r div 4]
      else Inl MalformedEncodingError)"
| "octets [p, q] =
     (if q mod 16 = 0 then Inr [p * 4 + q div 16] else Inl MalformedEncodingError)"
| "octets [p] = Inl MalformedEncodingError"
| "octets [] = Inr []"

definition toB64URLSafeNoPadding :: "byte list \<Rightarrow> string" where
  "toB64URLSafeNoPadding input = map enc_char (sextets (map unat input))"

definition from_base64 :: "string \<Rightarrow> error + byte list" where
  "from_base64 text =
     (case those (map dec_char text) of
        None \<Rightarrow> Inl MalformedEncodingError
      | Some ns \<Rightarrow>
          (case octets ns of Inl e \<Rightarrow> Inl e | Inr bs \<Rightarrow> Inr (map of_nat bs)))"


subsection \<open>Requests, effects and the environment\<close>

datatype json =
    JUndefined
  | JNull
  | JBool bool
  | JNum int
  | JStr string
  | JArr "json list"
  | JObj "(string \<times> json) list"

text \<open>
  The second argument of \<open>HTTPService.post\<close>: absent, an object, or the string that the
  built-in \<open>JSON.stringify\<close> makes of an object (kept as the value it serialises).
\<close>

datatype body = NoBody | Object json | JSON_stringify json

datatype http_method = GET | POST | PATCH | DELETE

text \<open>
  A call of \<open>HTTPService\<close>, whose module is not among the source files; the arguments are
  kept by position: \<open>get(url, params, headers)\<close> and
  \<open>post/patch/delete(url, data, params, headers)\<close>. An argument the call leaves out
  is \<open>None\<close>.
\<close>

record request =
  req_method :: http_method
  req_url :: string
  req_data :: body
  req_params :: "(string \<times> string) list option"
  req_headers :: "(string \<times> string) list option"

text \<open>
  \<open>PublicKeyCredentialCreationOptions\<close>: the two fields that arrive as text and are
  replaced by bytes (the type parameter), and everything else, which the module does not
  touch.
\<close>

record 'a publicKeyCreationOptions =
  pk_challenge :: 'a
  pk_user_id :: 'a
  pk_other :: json

record passkeyRegistrationOptions =
  reg_sessionID :: string
  reg_publicKey :: "string publicKeyCreationOptions"

text \<open>
  The credential object at run time. The module reads \<open>id\<close>, \<open>type\<close> and, past the type
  checker, fields of \<open>response\<close>; a field that the response does not have is \<open>None\<close>.
  \<open>rawId\<close> is the binary identifier every public-key credential carries; the module
  never reads it.
\<close>

record authenticatorResponse =
  attestationObject :: "byte list option"
  clientDataJSON :: "byte list option"
  authenticatorData :: "byte list option"
  signature :: "byte list option"
  userHandle :: "byte list option"

record credential =
  cred_id :: string
  cred_type :: string
  cred_rawId :: "byte list"
  cred_response :: authenticatorResponse

record fetch_response =
  res_ok :: bool
  res_status :: nat
  res_json :: "error + passkeyRegistrationOptions"

datatype effect =
    HTTPService request
  | Fetch string "(string \<times> string) list"
  | CredentialsCreate "byte list publicKeyCreationOptions"
  | LogError string error

text \<open>
  What the module reads from its surroundings: the stored token (\<open>getToken()\<close>), the
  \<open>clientPackage\<close> item of local storage, the two origins (\<open>getEndpoint()\<close>,
  \<open>apiOrigin()\<close>), and the answers of the transport, of \<open>fetch\<close> and of
  \<open>navigator.credentials.create\<close> (which resolves to a credential or to null, or rejects).
\<close>

record env =
  getToken :: "string option"
  clientPackage :: "string option"
  ENDPOINT :: string
  apiOrigin :: string
  httpResponse :: "request \<Rightarrow> error + json"
  fetchResponse :: "string \<Rightarrow> (string \<times> string) list \<Rightarrow> error + fetch_response"
  credentialsCreate :: "byte list publicKeyCreationOptions \<Rightarrow> error + credential option"

type_synonym 'a outcome = "effect list \<times> (error + 'a)"

definition returns :: "'a \<Rightarrow> 'a outcome" where
  "returns x = ([], Inr x)"

definition throws :: "error \<Rightarrow> 'a outcome" where
  "throws e = ([], Inl e)"

text \<open>Sequencing (\<open>await\<close>): a thrown value ends the function, with the effects so far.\<close>

definition andThen :: "'a outcome \<Rightarrow> ('a \<Rightarrow> 'b outcome) \<Rightarrow> 'b outcome" where
  "andThen m f =
     (case m of
        (es, Inl e) \<Rightarrow> (es, Inl e)
      | (es, Inr x) \<Rightarrow> (case f x of (es', r) \<Rightarrow> (es @ es', r)))"

text \<open>\<open>try { ... } catch (e) { log.error(message, e); throw e; }\<close>\<close>

definition tryCatchLog :: "string \<Rightarrow> 'a outcome \<Rightarrow> 'a outcome" where
  "tryCatchLog message m =
     (case m of
        (es, Inl e) \<Rightarrow> (es @ [LogError message e], Inl e)
      | (es, Inr x) \<Rightarrow> (es, Inr x))"

definition httpService :: "env \<Rightarrow> request \<Rightarrow> json outcome" where
  "httpService env req = ([HTTPService req], httpResponse env req)"

text \<open>JavaScript truthiness of a \<open>string | null | undefined\<close>: the empty string is falsy.\<close>

definition truthy :: "string option \<Rightarrow> bool" where
  "truthy v = (case v of None \<Rightarrow> False | Some s \<Rightarrow> s \<noteq> [])"

text \<open>
  Modelled from the spec: \<open>ensure\<close> (imported from @/utils/ensure) is not among the source
  files and the spec does not describe it; by its name and its use here it returns a
  value that is present and throws on null or undefined.
\<close>

definition ensure :: "'a option \<Rightarrow> error + 'a" where
  "ensure v = (case v of None \<Rightarrow> Inl RequiredValueMissing | Some x \<Rightarrow> Inr x)"

text \<open>\<open>new Uint8Array(buffer)\<close>: the buffer's bytes; of null or undefined, no bytes.\<close>

definition new_Uint8Array :: "byte list option \<Rightarrow> byte list" where
  "new_Uint8Array buffer = (case buffer of None \<Rightarrow> [] | Some bs \<Rightarrow> bs)"

text \<open>A number in a template literal.\<close>

fun decimal :: "nat \<Rightarrow> string" where
  "decimal n =
     (if n < 10 then [''0123456789'' ! n]
      else decimal (n div 10) @ [''0123456789'' ! (n mod 10)])"

declare decimal.simps [simp del]

subsection \<open>The module's functions\<close>

definition accountsAuthenticatedRequestHeaders :: "env \<Rightarrow> error + (string \<times> string) list" where
  "accountsAuthenticatedRequestHeaders env =
     (case getToken env of
        None \<Rightarrow> Inl (Error ''Missing accounts token'')
      | Some token \<Rightarrow>
          if token = [] then Inl (Error ''Missing accounts token'')
          else
            (case clientPackage env of
               None \<Rightarrow> Inr [(''X-Auth-Token'', token)]
             | Some cp \<Rightarrow>
                 if cp = [] then Inr [(''X-Auth-Token'', token)]
                 else Inr [(''X-Auth-Token'', token), (''X-Client-Package'', cp)]))"

definition getPasskeys :: "env \<Rightarrow> json outcome" where
  "getPasskeys env =
     (case getToken env of
        None \<Rightarrow> returns JUndefined
      | Some token \<Rightarrow>
          if token = [] then returns JUndefined
          else httpService env
                 \<lparr>req_method = GET, req_url = ENDPOINT env @ ''/passkeys'', req_data = NoBody,
                  req_params = Some [], req_headers = Some [(''X-Auth-Token'', token)]\<rparr>)"

definition renamePasskey :: "env \<Rightarrow> string \<Rightarrow> string \<Rightarrow> json outcome" where
  "renamePasskey env ident name =
     tryCatchLog ''rename passkey failed''
       (case getToken env of
          None \<Rightarrow> returns JUndefined
        | Some token \<Rightarrow>
            if token = [] then returns JUndefined
            else httpService env
                   \<lparr>req_method = PATCH, req_url = ENDPOINT env @ ''/passkeys/'' @ ident,
                    req_data = Object (JObj []),
                    req_params = Some [(''friendlyName'', name)],
                    req_headers = Some [(''X-Auth-Token'', token)]\<rparr>)"

definition deletePasskey :: "env \<Rightarrow> string \<Rightarrow> json outcome" where
  "deletePasskey env ident =
     tryCatchLog ''delete passkey failed''
       (case getToken env of
          None \<Rightarrow> returns JUndefined
        | Some token \<Rightarrow>
            if token = [] then returns JUndefined
            else httpService env
                   \<lparr>req_method = DELETE, req_url = ENDPOINT env @ ''/passkeys/'' @ ident,
                    req_data = Object (JObj []),
                    req_params = Some [],
                    req_headers = Some [(''X-Auth-Token'', token)]\<rparr>)"

definition getPasskeyRegistrationOptions :: "env \<Rightarrow> passkeyRegistrationOptions outcome" where
  "getPasskeyRegistrationOptions env =
     (let url = apiOrigin env @ ''/passkeys/registration/begin'' in
      case accountsAuthenticatedRequestHeaders env of
        Inl e \<Rightarrow> throws e
      | Inr hdrs \<Rightarrow>
          andThen ([Fetch url hdrs], fetchResponse env url hdrs) (\<lambda>res.
            if \<not> res_ok res
            then throws (Error (''Failed to fetch '' @ url @ '': HTTP '' @ decimal (res_status res)))
            else ([], res_json res)))"

definition finishPasskeyRegistration ::
  "env \<Rightarrow> string \<Rightarrow> credential \<Rightarrow> string \<Rightarrow> json outcome" where
  "finishPasskeyRegistration env friendlyName credential sessionID =
     (let attestationObjectB64 =
            toB64URLSafeNoPadding (new_Uint8Array (attestationObject (cred_response credential)));
          clientDataJSONB64 =
            toB64URLSafeNoPadding (new_Uint8Array (clientDataJSON (cred_response credential)))
      in
      case ensure (getToken env) of
        Inl e \<Rightarrow> throws e
      | Inr token \<Rightarrow>
          httpService env
            \<lparr>req_method = POST,
             req_url = ENDPOINT env @ ''/passkeys/registration/finish'',
             req_data = JSON_stringify (JObj
               [(''id'', JStr (cred_id credential)),
                (''rawId'', JStr (cred_id credential)),
                (''type'', JStr (cred_type credential)),
                (''response'', JObj
                   [(''attestationObject'', JStr attestationObjectB64),
                    (''clientDataJSON'', JStr clientDataJSONB64)])]),
             req_params = Some [(''friendlyName'', friendlyName), (''sessionID'', sessionID)],
             req_headers = Some [(''X-Auth-Token'', token)]\<rparr>)"

definition registerPasskey :: "env \<Rightarrow> string \<Rightarrow> unit outcome" where
  "registerPasskey env name =
     andThen (getPasskeyRegistrationOptions env) (\<lambda>response.
       case from_base64 (pk_challenge (reg_publicKey response)) of
         Inl e \<Rightarrow> throws e
       | Inr challenge \<Rightarrow>
           (case from_base64 (pk_user_id (reg_publicKey response)) of
              Inl e \<Rightarrow> throws e
            | Inr user_id \<Rightarrow>
                (let options = \<lparr>pk_challenge = challenge, pk_user_id = user_id,
                                pk_other = pk_other (reg_publicKey response)\<rparr>
                 in
                 andThen ([CredentialsCreate options], credentialsCreate env options) (\<lambda>created.
                   andThen ([], ensure created) (\<lambda>credential.
                     andThen
                       (finishPasskeyRegistration env name credential (reg_sessionID response))
                       (\<lambda>_. returns ()))))))"

text \<open>
  The \<open>URL\<close> object: \<open>protocol\<close> is the scheme with its colon, \<open>hostname\<close> the host
  without the port, \<open>port\<close> the port (empty when absent or the scheme's default), and
  \<open>host\<close> the hostname followed by a colon and the port when there is one.
\<close>

record url =
  protocol :: string
  hostname :: string
  port :: string

definition host :: "url \<Rightarrow> string" where
  "host u = (if port u = [] then hostname u else hostname u @ '':'' @ port u)"

text \<open>\<open>String.prototype.endsWith\<close>\<close>

definition endsWith :: "string \<Rightarrow> string \<Rightarrow> bool" where
  "endsWith s searchString =
     (length searchString \<le> length s \<and>
      drop (length s - length searchString) s = searchString)"

definition isWhitelistedRedirect :: "bool \<Rightarrow> url \<Rightarrow> bool" where
  "isWhitelistedRedirect isDevBuild redirectURL =
     ((isDevBuild \<and> endsWith (hostname redirectURL) ''localhost'') \<or>
      endsWith (host redirectURL) ''.ente.io'' \<or>
      endsWith (host redirectURL) ''.ente.sh'' \<or>
      protocol redirectURL = ''ente:'' \<or>
      protocol redirectURL = ''enteauth:'')"

definition beginPasskeyAuthentication :: "env \<Rightarrow> string \<Rightarrow> json outcome" where
  "beginPasskeyAuthentication env sessionId =
     tryCatchLog ''begin passkey authentication failed''
       (httpService env
          \<lparr>req_method = POST,
           req_url = ENDPOINT env @ ''/users/two-factor/passkeys/begin'',
           req_data = Object (JObj [(''sessionID'', JStr sessionId)]),
           req_params = None,
           req_headers = None\<rparr>)"

definition finishPasskeyAuthentication ::
  "env \<Rightarrow> credential \<Rightarrow> string \<Rightarrow> string \<Rightarrow> json outcome" where
  "finishPasskeyAuthentication env credential sessionId ceremonySessionId =
     tryCatchLog ''finish passkey authentication failed''
       (httpService env
          \<lparr>req_method = POST,
           req_url = ENDPOINT env @ ''/users/two-factor/passkeys/finish'',
           req_data = Object (JObj
             [(''id'', JStr (cred_id credential)),
              (''rawId'', JStr (cred_id credential)),
              (''type'', JStr (cred_type credential)),
              (''response'', JObj
                 [(''authenticatorData'', JStr (toB64URLSafeNoPadding
                     (new_Uint8Array (authenticatorData (cred_response credential))))),
                  (''clientDataJSON'', JStr (toB64URLSafeNoPadding
                     (new_Uint8Array (clientDataJSON (cred_response credential))))),
                  (''signature'', JStr (toB64URLSafeNoPadding
                     (new_Uint8Array (signature (cred_response credential))))),
                  (''userHandle'', JStr (toB64URLSafeNoPadding
                     (new_Uint8Array (userHandle (cred_response credential)))))])]),
           req_params = Some [(''sessionID'', sessionId), (''ceremonySessionID'', ceremonySessionId)],
           req_headers = None\<rparr>)"

subsection \<open>The redirect rule in the specification's words\<close>

text \<open>
  The specification (4.6) states the rule with one notion of the URL's host for both the
  loopback rule and the production rule: allow iff the build is a development build and
  the host ends with a local-loopback domain, or the host ends with one of the production
  parent domains, or the scheme is one of the custom application schemes. The parameter
  \<open>host_of\<close> is that notion of host: \<open>hostname\<close> (without the port) or \<open>host\<close> (with it).
  This definition follows the specification, not the source, and is compared with
  \<open>isWhitelistedRedirect\<close> below.
\<close>

definition specified_redirect_rule :: "(url \<Rightarrow> string) \<Rightarrow> bool \<Rightarrow> url \<Rightarrow> bool" where
  "specified_redirect_rule host_of isDevBuild u =
     ((isDevBuild \<and> endsWith (host_of u) ''localhost'') \<or>
      endsWith (host_of u) ''.ente.io'' \<or>
      endsWith (host_of u) ''.ente.sh'' \<or>
      protocol u = ''ente:'' \<or>
      protocol u = ''enteauth:'')"

subsection \<open>Reading effects and payloads\<close>

fun requests :: "effect list \<Rightarrow> request list" where
  "requests [] = []"
| "requests (HTTPService r # es) = r # requests es"
| "requests (e # es) = requests es"

text \<open>A field of the object a request carries as its data, serialised or not.\<close>

fun payload_field :: "body \<Rightarrow> string \<Rightarrow> json option" where
  "payload_field (Object (JObj kvs)) k = map_of kvs k"
| "payload_field (JSON_stringify (JObj kvs)) k = map_of kvs k"
| "payload_field _ k = None"

text \<open>The \<open>rawId\<close> fields of the requests among a list of effects, in order.\<close>

definition rawIds_sent :: "effect list \<Rightarrow> json option list" where
  "rawIds_sent es = map (\<lambda>r. payload_field (req_data r) ''rawId'') (requests es)"

subsection \<open>Sample data\<close>

text \<open>
  A begin response, a credential and an environment, parametrised by the stored token and
  by what the credential API answers; the theorems below are run on them.
\<close>

definition sample_begin :: passkeyRegistrationOptions where
  "sample_begin =
     \<lparr>reg_sessionID = ''session-1'',
      reg_publicKey =
        \<lparr>pk_challenge = ''AQID'', pk_user_id = ''__8'',
         pk_other = JObj [(''rp'', JObj [(''name'', JStr ''ente'')])]\<rparr>\<rparr>"

definition sample_credential :: credential where
  "sample_credential =
     \<lparr>cred_id = ''Y3JlZA'', cred_type = ''public-key'', cred_rawId = [99, 114, 101, 100],
      cred_response =
        \<lparr>attestationObject = Some [0, 255], clientDataJSON = Some [123, 125],
         authenticatorData = Some [1, 2, 3], signature = Some [255, 254],
         userHandle = None\<rparr>\<rparr>"

definition sample_env :: "string option \<Rightarrow> error + credential option \<Rightarrow> env" where
  "sample_env token created =
     \<lparr>getToken = token, clientPackage = None,
      ENDPOINT = ''https://api.ente.io'', apiOrigin = ''https://api.ente.io'',
      httpResponse = (\<lambda>_. Inr JNull),
      fetchResponse = (\<lambda>_ _. Inr \<lparr>res_ok = True, res_status = 200, res_json = Inr sample_begin\<rparr>),
      credentialsCreate = (\<lambda>_. created)\<rparr>"

text \<open>The options the sample begin response decodes to, and a user's cancellation.\<close>

definition sample_options :: "byte list publicKeyCreationOptions" where
  "sample_options =
     \<lparr>pk_challenge = [1, 2, 3], pk_user_id = [255, 255],
      pk_other = JObj [(''rp'', JObj [(''name'', JStr ''ente'')])]\<rparr>"

definition cancelled :: error where
  "cancelled = Rejected ''NotAllowedError'' ''The operation either timed out or was not allowed.''"

section \<open>Properties\<close>

subsection \<open>Auxiliary facts\<close>

lemma dec_char_enc_char: "n < 64 \<Longrightarrow> dec_char (enc_char n) = Some n"
proof -
  assume n: "n < 64"
  have d: "distinct b64_alphabet" by (simp add: b64_alphabet_def)
  have l: "length b64_alphabet = 64" by (simp add: b64_alphabet_def)
  have "map_of (zip b64_alphabet [0 ..< 64]) (b64_alphabet ! n) = Some ([0 ..< 64] ! n)"
    using n d l by (intro map_of_zip_nth) auto
  with n show ?thesis by (simp add: dec_char_def enc_char_def)
qed

lemma those_dec_char_enc_char:
  "\<forall>n \<in> set ns. n < 64 \<Longrightarrow> those (map dec_char (map enc_char ns)) = Some ns"
  by (induction ns) (simp_all add: dec_char_enc_char)

lemma sextets_less_64: "\<forall>b \<in> set bs. b < 256 \<Longrightarrow> \<forall>n \<in> set (sextets bs). n < 64"
  by (induction bs rule: sextets.induct) auto

lemma octets_sextets: "\<forall>b \<in> set bs. b < 256 \<Longrightarrow> octets (sextets bs) = Inr bs"
  by (induction bs rule: sextets.induct) auto

lemma from_base64_inverts: "from_base64 (toB64URLSafeNoPadding b) = Inr b"
proof -
  have "unat x < 256" for x :: byte
    using unsigned_less [of x, where 'a = nat] by simp
  then have bnd: "\<forall>n \<in> set (map unat b). n < 256"
    by auto
  have chars: "those (map dec_char (map enc_char (sextets (map unat b)))) = Some (sextets (map unat b))"
    by (rule those_dec_char_enc_char [OF sextets_less_64 [OF bnd]])
  have inv: "map of_nat (map unat b) = b"
    by (simp add: map_idI)
  show ?thesis
    unfolding from_base64_def toB64URLSafeNoPadding_def chars
    by (simp add: octets_sextets [OF bnd] inv del: map_map)
qed

lemma from_base64_AQID: "from_base64 ''AQID'' = Inr [1, 2, 3]"
  by (simp add: from_base64_def dec_char_def b64_alphabet_def upt_rec)

lemma from_base64_8: "from_base64 ''__8'' = Inr [255, 255]"
  by (simp add: from_base64_def dec_char_def b64_alphabet_def upt_rec)

lemma toB64_0_255: "toB64URLSafeNoPadding [0, 255] = ''AP8''"
  by (simp add: toB64URLSafeNoPadding_def enc_char_def b64_alphabet_def)

lemma toB64_99_114_101_100: "toB64URLSafeNoPadding [99, 114, 101, 100] = ''Y3JlZA''"
  by (simp add: toB64URLSafeNoPadding_def enc_char_def b64_alphabet_def)

lemma toB64_123_125: "toB64URLSafeNoPadding [123, 125] = ''e30''"
  by (simp add: toB64URLSafeNoPadding_def enc_char_def b64_alphabet_def)

lemma endsWith_iff: "endsWith s t \<longleftrightarrow> (\<exists>p. s = p @ t)"
proof
  assume "endsWith s t"
  then have "s = take (length s - length t) s @ t"
    by (metis append_take_drop_id endsWith_def)
  then show "\<exists>p. s = p @ t" ..
next
  assume "\<exists>p. s = p @ t"
  then show "endsWith s t" by (auto simp: endsWith_def)
qed

lemma andThen_Inl: "andThen (es, Inl e) f = (es, Inl e)"
  by (simp add: andThen_def)

lemma andThen_Inr: "andThen (es, Inr x) f = (es @ fst (f x), snd (f x))"
  by (simp add: andThen_def split: prod.splits)

lemma fst_andThen_returns: "fst (andThen m (\<lambda>_. returns v)) = fst m"
  by (cases m; cases "snd m") (auto simp: andThen_def returns_def)

lemma requests_append: "requests (xs @ ys) = requests xs @ requests ys"
  by (induction xs rule: requests.induct) simp_all

lemma requests_tryCatchLog: "requests (fst (tryCatchLog m (es, r))) = requests es"
  by (cases r) (simp_all add: tryCatchLog_def requests_append)

lemma snd_tryCatchLog: "snd (tryCatchLog m x) = snd x"
  by (cases x; cases "snd x") (auto simp add: tryCatchLog_def)

lemma headers_without_token:
  "\<not> truthy (getToken env) \<Longrightarrow>
     accountsAuthenticatedRequestHeaders env = Inl (Error ''Missing accounts token'')"
  by (auto simp: truthy_def accountsAuthenticatedRequestHeaders_def split: option.splits)

lemma finish_performs_no_create:
  "finishPasskeyRegistration env n c s = (es, r) \<Longrightarrow> CredentialsCreate options \<notin> set es"
  by (auto simp: finishPasskeyRegistration_def throws_def httpService_def Let_def split: sum.splits)

lemma fst_finishPasskeyRegistration:
  "getToken env = Some token \<Longrightarrow>
   fst (finishPasskeyRegistration env friendlyName credential sessionID) =
     [HTTPService
        \<lparr>req_method = POST,
         req_url = ENDPOINT env @ ''/passkeys/registration/finish'',
         req_data = JSON_stringify (JObj
           [(''id'', JStr (cred_id credential)),
            (''rawId'', JStr (cred_id credential)),
            (''type'', JStr (cred_type credential)),
            (''response'', JObj
               [(''attestationObject'', JStr (toB64URLSafeNoPadding
                   (new_Uint8Array (attestationObject (cred_response credential))))),
                (''clientDataJSON'', JStr (toB64URLSafeNoPadding
                   (new_Uint8Array (clientDataJSON (cred_response credential)))))])]),
         req_params = Some [(''friendlyName'', friendlyName), (''sessionID'', sessionID)],
         req_headers = Some [(''X-Auth-Token'', token)]\<rparr>]"
  by (simp add: finishPasskeyRegistration_def ensure_def httpService_def Let_def)

lemma begin_effects:
  "getPasskeyRegistrationOptions env = (es, r) \<Longrightarrow>
     requests es = [] \<and> CredentialsCreate options \<notin> set es"
  by (auto simp: getPasskeyRegistrationOptions_def andThen_def throws_def Let_def
      split: sum.splits if_splits)

lemma finish_effects_after_create:
  "CredentialsCreate options
     \<notin> set (fst (andThen ([], ensure created) (\<lambda>credential.
              andThen (finishPasskeyRegistration env name credential s) (\<lambda>_. returns ()))))"
proof (cases created)
  case None
  then show ?thesis by (simp add: ensure_def andThen_Inl)
next
  case (Some c)
  obtain es r where f: "finishPasskeyRegistration env name c s = (es, r)"
    by (cases "finishPasskeyRegistration env name c s")
  from finish_performs_no_create [OF f] have "CredentialsCreate options \<notin> set es" .
  with Some f show ?thesis
    by (simp add: ensure_def andThen_Inr fst_andThen_returns)
qed

text \<open>The sample registration, up to the call of the credential API.\<close>

lemma sample_headers:
  "accountsAuthenticatedRequestHeaders (sample_env (Some ''tok'') created) =
     Inr [(''X-Auth-Token'', ''tok'')]"
  by (simp add: accountsAuthenticatedRequestHeaders_def sample_env_def)

lemma sample_getPasskeyRegistrationOptions:
  "getPasskeyRegistrationOptions (sample_env (Some ''tok'') created) =
     ([Fetch ''https://api.ente.io/passkeys/registration/begin'' [(''X-Auth-Token'', ''tok'')]],
      Inr sample_begin)"
  by (simp add: getPasskeyRegistrationOptions_def sample_headers)
     (simp add: sample_env_def andThen_Inr)

subsection \<open>The binary encoder\<close>

text \<open>
  Claim C1. For every byte sequence \<open>b\<close>, decoding the URL-safe unpadded encoding of \<open>b\<close>
  succeeds and yields \<open>b\<close> again; in particular for the empty sequence and for sequences
  of any length made of zero bytes only or of 0xFF bytes only.
\<close>

theorem toB64URLSafeNoPadding_roundtrip:
  "from_base64 (toB64URLSafeNoPadding b) = Inr b \<and>
   from_base64 (toB64URLSafeNoPadding []) = Inr [] \<and>
   from_base64 (toB64URLSafeNoPadding (replicate n 0)) = Inr (replicate n 0) \<and>
   from_base64 (toB64URLSafeNoPadding (replicate n 255)) = Inr (replicate n 255)"
  by (simp only: from_base64_inverts)

subsection \<open>The redirect validator\<close>

text \<open>
  Claim C3, as amended. For every URL, \<open>isWhitelistedRedirect\<close> answers true if and only
  if the build is a development build and the URL's \<open>hostname\<close> (the host without the
  port) ends with "localhost", or the URL's \<open>host\<close> (the hostname followed by the port,
  when the URL has one) ends with ".ente.io" or with ".ente.sh", or the URL's scheme is
  "ente:" or "enteauth:". In particular https://x.ente.io/path is allowed,
  https://evil.example.com is rejected, ente://open is allowed, and http://localhost:3000
  is allowed exactly in a development build.
\<close>

theorem isWhitelistedRedirect_iff:
  "(isWhitelistedRedirect dev u \<longleftrightarrow>
      (dev \<and> (\<exists>p. hostname u = p @ ''localhost'')) \<or>
      (\<exists>p. host u = p @ ''.ente.io'') \<or> (\<exists>p. host u = p @ ''.ente.sh'') \<or>
      protocol u = ''ente:'' \<or> protocol u = ''enteauth:'') \<and>
   isWhitelistedRedirect dev \<lparr>protocol = ''https:'', hostname = ''x.ente.io'', port = []\<rparr> \<and>
   \<not> isWhitelistedRedirect dev \<lparr>protocol = ''https:'', hostname = ''evil.example.com'', port = []\<rparr> \<and>
   isWhitelistedRedirect dev \<lparr>protocol = ''ente:'', hostname = ''open'', port = []\<rparr> \<and>
   (isWhitelistedRedirect dev \<lparr>protocol = ''http:'', hostname = ''localhost'', port = ''3000''\<rparr>
      \<longleftrightarrow> dev)"
proof -
  have a: "isWhitelistedRedirect dev u \<longleftrightarrow>
      (dev \<and> (\<exists>p. hostname u = p @ ''localhost'')) \<or>
      (\<exists>p. host u = p @ ''.ente.io'') \<or> (\<exists>p. host u = p @ ''.ente.sh'') \<or>
      protocol u = ''ente:'' \<or> protocol u = ''enteauth:''"
    unfolding isWhitelistedRedirect_def endsWith_iff by (rule refl)
  have b: "isWhitelistedRedirect dev \<lparr>protocol = ''https:'', hostname = ''x.ente.io'', port = []\<rparr>"
    by (simp add: isWhitelistedRedirect_def endsWith_def host_def)
  have c: "\<not> isWhitelistedRedirect dev
              \<lparr>protocol = ''https:'', hostname = ''evil.example.com'', port = []\<rparr>"
    by (simp add: isWhitelistedRedirect_def endsWith_def host_def)
  have d: "isWhitelistedRedirect dev \<lparr>protocol = ''ente:'', hostname = ''open'', port = []\<rparr>"
    by (simp add: isWhitelistedRedirect_def endsWith_def host_def)
  have e: "isWhitelistedRedirect dev
             \<lparr>protocol = ''http:'', hostname = ''localhost'', port = ''3000''\<rparr> \<longleftrightarrow> dev"
    by (simp add: isWhitelistedRedirect_def endsWith_def host_def)
  from a b c d e show ?thesis by blast
qed

text \<open>
  Claim C3 as stated, with "the URL's host" in both rules, fails on the code under either
  notion of host. With the host taken without the port, https://x.ente.io:8443 satisfies
  the production rule, yet the code rejects it, since it compares the suffix of
  "x.ente.io:8443". With the host taken with the port, http://localhost:3000 satisfies no
  rule in a development build, yet the code accepts it, since it compares the suffix of
  "localhost".
\<close>

theorem isWhitelistedRedirect_single_host_counterexample:
  "specified_redirect_rule hostname False
     \<lparr>protocol = ''https:'', hostname = ''x.ente.io'', port = ''8443''\<rparr> \<and>
   \<not> isWhitelistedRedirect False
     \<lparr>protocol = ''https:'', hostname = ''x.ente.io'', port = ''8443''\<rparr> \<and>
   \<not> specified_redirect_rule host True
     \<lparr>protocol = ''http:'', hostname = ''localhost'', port = ''3000''\<rparr> \<and>
   isWhitelistedRedirect True
     \<lparr>protocol = ''http:'', hostname = ''localhost'', port = ''3000''\<rparr>"
  by (simp add: specified_redirect_rule_def isWhitelistedRedirect_def endsWith_def host_def)

text \<open>
  Claim C10. The validator matches by string suffix, not by domain label: outside a
  development build an https URL whose host is exactly "ente.io" or "ente.sh" is
  rejected, and in a development build every URL whose hostname ends with the characters
  "localhost" is accepted.
\<close>

theorem isWhitelistedRedirect_suffix_matching:
  "((host u = ''ente.io'' \<or> host u = ''ente.sh'') \<and> protocol u = ''https:''
      \<longrightarrow> \<not> isWhitelistedRedirect False u) \<and>
   (hostname v = p @ ''localhost'' \<longrightarrow> isWhitelistedRedirect True v)"
  by (auto simp: isWhitelistedRedirect_def endsWith_def)

theorem isWhitelistedRedirect_suffix_matching_witness:
  "host \<lparr>protocol = ''https:'', hostname = ''ente.io'', port = []\<rparr> = ''ente.io'' \<and>
   \<not> isWhitelistedRedirect False \<lparr>protocol = ''https:'', hostname = ''ente.io'', port = []\<rparr> \<and>
   host \<lparr>protocol = ''https:'', hostname = ''ente.sh'', port = []\<rparr> = ''ente.sh'' \<and>
   \<not> isWhitelistedRedirect False \<lparr>protocol = ''https:'', hostname = ''ente.sh'', port = []\<rparr> \<and>
   hostname \<lparr>protocol = ''http:'', hostname = ''evil-localhost'', port = ''8080''\<rparr>
     = ''evil-'' @ ''localhost'' \<and>
   isWhitelistedRedirect True \<lparr>protocol = ''http:'', hostname = ''evil-localhost'', port = ''8080''\<rparr>"
  using
    isWhitelistedRedirect_suffix_matching
      [of "\<lparr>protocol = ''https:'', hostname = ''ente.io'', port = []\<rparr>"
          "\<lparr>protocol = ''http:'', hostname = ''evil-localhost'', port = ''8080''\<rparr>" "''evil-''"]
    isWhitelistedRedirect_suffix_matching
      [of "\<lparr>protocol = ''https:'', hostname = ''ente.sh'', port = []\<rparr>"
          "\<lparr>protocol = ''http:'', hostname = ''evil-localhost'', port = ''8080''\<rparr>" "''evil-''"]
  by (simp add: host_def)

subsection \<open>The management operations\<close>

text \<open>
  Claim C4. When no auth token is stored (\<open>getToken()\<close> is null, undefined or the empty
  string), \<open>getPasskeys\<close>, \<open>renamePasskey\<close> and \<open>deletePasskey\<close> each return undefined,
  perform no effect at all (so no network call), and throw nothing.
\<close>

theorem management_without_token:
  "\<not> truthy (getToken env) \<Longrightarrow>
     getPasskeys env = ([], Inr JUndefined) \<and>
     renamePasskey env ident name = ([], Inr JUndefined) \<and>
     deletePasskey env ident = ([], Inr JUndefined)"
  by (auto simp: truthy_def getPasskeys_def renamePasskey_def deletePasskey_def returns_def
      tryCatchLog_def split: option.splits)

theorem management_without_token_witness:
  "\<not> truthy (getToken (sample_env None (Inr None))) \<and>
   getPasskeys (sample_env None (Inr None)) = ([], Inr JUndefined) \<and>
   renamePasskey (sample_env None (Inr None)) ''pk-1'' ''laptop'' = ([], Inr JUndefined) \<and>
   deletePasskey (sample_env None (Inr None)) ''pk-1'' = ([], Inr JUndefined)"
proof -
  have h: "\<not> truthy (getToken (sample_env None (Inr None)))"
    by (simp add: truthy_def sample_env_def)
  from management_without_token [OF h, of "''pk-1''" "''laptop''"] h show ?thesis by simp
qed

subsection \<open>Registration\<close>

text \<open>
  Claim C5. When no auth token is stored, the header builder throws the error
  "Missing accounts token" (the authentication-required failure), and
  \<open>getPasskeyRegistrationOptions\<close>, hence \<open>registerPasskey\<close>, fails with that error having
  performed no effect: the failure is raised before \<open>fetch\<close> is called.
\<close>

theorem registration_begin_without_token:
  assumes "\<not> truthy (getToken env)"
  shows "accountsAuthenticatedRequestHeaders env = Inl (Error ''Missing accounts token'') \<and>
     getPasskeyRegistrationOptions env = ([], Inl (Error ''Missing accounts token'')) \<and>
     registerPasskey env name = ([], Inl (Error ''Missing accounts token''))"
proof -
  have h: "accountsAuthenticatedRequestHeaders env = Inl (Error ''Missing accounts token'')"
    using assms by (rule headers_without_token)
  have g: "getPasskeyRegistrationOptions env = ([], Inl (Error ''Missing accounts token''))"
    by (simp add: getPasskeyRegistrationOptions_def h throws_def)
  have r: "registerPasskey env name = ([], Inl (Error ''Missing accounts token''))"
    by (simp add: registerPasskey_def g andThen_Inl)
  from h g r show ?thesis by simp
qed

theorem registration_begin_without_token_witness:
  "\<not> truthy (getToken (sample_env (Some []) (Inr (Some sample_credential)))) \<and>
   accountsAuthenticatedRequestHeaders (sample_env (Some []) (Inr (Some sample_credential)))
     = Inl (Error ''Missing accounts token'') \<and>
   getPasskeyRegistrationOptions (sample_env (Some []) (Inr (Some sample_credential)))
     = ([], Inl (Error ''Missing accounts token'')) \<and>
   registerPasskey (sample_env (Some []) (Inr (Some sample_credential))) ''laptop''
     = ([], Inl (Error ''Missing accounts token''))"
proof -
  have h: "\<not> truthy (getToken (sample_env (Some []) (Inr (Some sample_credential))))"
    by (simp add: truthy_def sample_env_def)
  from registration_begin_without_token [OF h, of "''laptop''"] h show ?thesis by simp
qed

text \<open>
  Claim C6. Whenever \<open>registerPasskey\<close> has called \<open>navigator.credentials.create\<close> and the
  call has failed by throwing a value, \<open>registerPasskey\<close> fails with exactly that value, and
  has sent no request through the transport. (A call that resolves to null is not a
  thrown failure; \<open>ensure\<close> turns it into an error of its own.)
\<close>

theorem registerPasskey_propagates_create_failure:
  assumes called: "CredentialsCreate options \<in> set (fst (registerPasskey env name))"
    and failed: "credentialsCreate env options = Inl e"
  shows "snd (registerPasskey env name) = Inl e \<and> requests (fst (registerPasskey env name)) = []"
proof -
  obtain es r where g: "getPasskeyRegistrationOptions env = (es, r)"
    by (cases "getPasskeyRegistrationOptions env")
  from begin_effects [OF g] have es: "requests es = []" "CredentialsCreate options \<notin> set es"
    by simp_all
  show ?thesis
  proof (cases r)
    case (Inl e0)
    with g called es show ?thesis by (simp add: registerPasskey_def andThen_Inl)
  next
    case (Inr response)
    show ?thesis
    proof (cases "from_base64 (pk_challenge (reg_publicKey response))")
      case (Inl e1)
      with g Inr called es show ?thesis
        by (simp add: registerPasskey_def andThen_Inr throws_def)
    next
      case c: (Inr challenge)
      show ?thesis
      proof (cases "from_base64 (pk_user_id (reg_publicKey response))")
        case (Inl e2)
        with g Inr c called es show ?thesis
          by (simp add: registerPasskey_def andThen_Inr throws_def)
      next
        case u: (Inr user_id)
        let ?opts = "\<lparr>pk_challenge = challenge, pk_user_id = user_id,
                       pk_other = pk_other (reg_publicKey response)\<rparr>"
        have run: "registerPasskey env name =
          (es @ fst (andThen ([CredentialsCreate ?opts], credentialsCreate env ?opts) (\<lambda>created.
                   andThen ([], ensure created) (\<lambda>credential.
                     andThen
                       (finishPasskeyRegistration env name credential (reg_sessionID response))
                       (\<lambda>_. returns ())))),
           snd (andThen ([CredentialsCreate ?opts], credentialsCreate env ?opts) (\<lambda>created.
                   andThen ([], ensure created) (\<lambda>credential.
                     andThen
                       (finishPasskeyRegistration env name credential (reg_sessionID response))
                       (\<lambda>_. returns ())))))"
          using g Inr c u by (simp add: registerPasskey_def andThen_Inr Let_def)
        have same: "options = ?opts"
        proof (cases "credentialsCreate env ?opts")
          case (Inl e3)
          with called es show ?thesis by (simp add: run andThen_Inl)
        next
          case (Inr created)
          with called es finish_effects_after_create [of options created env name "reg_sessionID response"]
          show ?thesis by (simp add: run andThen_Inr)
        qed
        with failed es show ?thesis by (simp add: run andThen_Inl requests_append)
      qed
    qed
  qed
qed

theorem registerPasskey_propagates_create_failure_witness:
  "CredentialsCreate sample_options
     \<in> set (fst (registerPasskey (sample_env (Some ''tok'') (Inl cancelled)) ''laptop'')) \<and>
   credentialsCreate (sample_env (Some ''tok'') (Inl cancelled)) sample_options = Inl cancelled \<and>
   snd (registerPasskey (sample_env (Some ''tok'') (Inl cancelled)) ''laptop'') = Inl cancelled \<and>
   requests (fst (registerPasskey (sample_env (Some ''tok'') (Inl cancelled)) ''laptop'')) = []"
proof -
  let ?env = "sample_env (Some ''tok'') (Inl cancelled)"
  have create: "credentialsCreate ?env sample_options = Inl cancelled"
    by (simp add: sample_env_def)
  have run: "registerPasskey ?env ''laptop'' =
     ([Fetch ''https://api.ente.io/passkeys/registration/begin'' [(''X-Auth-Token'', ''tok'')],
       CredentialsCreate sample_options], Inl cancelled)"
    unfolding registerPasskey_def sample_getPasskeyRegistrationOptions
    by (simp add: andThen_Inr sample_begin_def from_base64_AQID from_base64_8)
       (simp add: sample_options_def [symmetric] create andThen_Inl)
  have called: "CredentialsCreate sample_options \<in> set (fst (registerPasskey ?env ''laptop''))"
    by (simp add: run)
  from registerPasskey_propagates_create_failure [OF called create] called create
  show ?thesis by simp
qed

text \<open>
  Claim C7. Let the begin request succeed with a response whose challenge and user-handle
  texts decode to the byte sequences \<open>challenge\<close> and \<open>user_id\<close>. Then
  \<open>registerPasskey\<close> calls \<open>navigator.credentials.create\<close> with options that carry exactly
  these bytes (and the other options unchanged), whatever the call answers. And for every
  credential the call resolves to, the one request that follows is the POST to the finish
  endpoint whose payload carries the encoded text of the credential's attestationObject
  and clientDataJSON, with friendlyName and the response's sessionID as parameters and the
  stored token in the X-Auth-Token header. (By \<open>from_base64_inverts\<close>, a text that is the
  encoding of \<open>b\<close> decodes to \<open>b\<close>.)
\<close>

theorem registerPasskey_decodes_and_encodes:
  assumes token: "getToken env = Some token"
    and hdrs: "accountsAuthenticatedRequestHeaders env = Inr hdrs"
    and fetched: "fetchResponse env (apiOrigin env @ ''/passkeys/registration/begin'') hdrs = Inr res"
      "res_ok res" "res_json res = Inr begin"
    and challenge: "from_base64 (pk_challenge (reg_publicKey begin)) = Inr challenge"
    and user_id: "from_base64 (pk_user_id (reg_publicKey begin)) = Inr user_id"
    and options: "options = \<lparr>pk_challenge = challenge, pk_user_id = user_id,
                      pk_other = pk_other (reg_publicKey begin)\<rparr>"
  shows "take 2 (fst (registerPasskey env name)) =
           [Fetch (apiOrigin env @ ''/passkeys/registration/begin'') hdrs, CredentialsCreate options] \<and>
         (\<forall>credential. credentialsCreate env options = Inr (Some credential) \<longrightarrow>
            fst (registerPasskey env name) =
              [Fetch (apiOrigin env @ ''/passkeys/registration/begin'') hdrs,
               CredentialsCreate options,
               HTTPService
                 \<lparr>req_method = POST,
                  req_url = ENDPOINT env @ ''/passkeys/registration/finish'',
                  req_data = JSON_stringify (JObj
                    [(''id'', JStr (cred_id credential)),
                     (''rawId'', JStr (cred_id credential)),
                     (''type'', JStr (cred_type credential)),
                     (''response'', JObj
                        [(''attestationObject'', JStr (toB64URLSafeNoPadding
                            (new_Uint8Array (attestationObject (cred_response credential))))),
                         (''clientDataJSON'', JStr (toB64URLSafeNoPadding
                            (new_Uint8Array (clientDataJSON (cred_response credential)))))])]),
                  req_params = Some [(''friendlyName'', name), (''sessionID'', reg_sessionID begin)],
                  req_headers = Some [(''X-Auth-Token'', token)]\<rparr>])"
proof -
  let ?url = "apiOrigin env @ ''/passkeys/registration/begin''"
  have g: "getPasskeyRegistrationOptions env = ([Fetch ?url hdrs], Inr begin)"
    using hdrs fetched by (simp add: getPasskeyRegistrationOptions_def andThen_Inr)
  have r: "registerPasskey env name =
      andThen ([Fetch ?url hdrs, CredentialsCreate options], credentialsCreate env options) (\<lambda>created.
        andThen ([], ensure created) (\<lambda>credential.
          andThen (finishPasskeyRegistration env name credential (reg_sessionID begin))
            (\<lambda>_. returns ())))"
    using challenge user_id options
    by (cases "credentialsCreate env options")
       (simp_all add: registerPasskey_def g andThen_Inl andThen_Inr)
  have a: "take 2 (fst (registerPasskey env name)) = [Fetch ?url hdrs, CredentialsCreate options]"
    unfolding r
    by (cases "credentialsCreate env options") (simp_all add: andThen_Inl andThen_Inr)
  have b: "fst (registerPasskey env name) =
              [Fetch ?url hdrs, CredentialsCreate options,
               HTTPService
                 \<lparr>req_method = POST,
                  req_url = ENDPOINT env @ ''/passkeys/registration/finish'',
                  req_data = JSON_stringify (JObj
                    [(''id'', JStr (cred_id credential)),
                     (''rawId'', JStr (cred_id credential)),
                     (''type'', JStr (cred_type credential)),
                     (''response'', JObj
                        [(''attestationObject'', JStr (toB64URLSafeNoPadding
                            (new_Uint8Array (attestationObject (cred_response credential))))),
                         (''clientDataJSON'', JStr (toB64URLSafeNoPadding
                            (new_Uint8Array (clientDataJSON (cred_response credential)))))])]),
                  req_params = Some [(''friendlyName'', name), (''sessionID'', reg_sessionID begin)],
                  req_headers = Some [(''X-Auth-Token'', token)]\<rparr>]"
    if "credentialsCreate env options = Inr (Some credential)" for credential
    unfolding r using that
    by (simp add: andThen_Inr ensure_def fst_andThen_returns
        fst_finishPasskeyRegistration [OF token])
  from a b show ?thesis by blast
qed

theorem registerPasskey_decodes_and_encodes_witness:
  "getToken (sample_env (Some ''tok'') (Inr (Some sample_credential))) = Some ''tok'' \<and>
   accountsAuthenticatedRequestHeaders (sample_env (Some ''tok'') (Inr (Some sample_credential)))
     = Inr [(''X-Auth-Token'', ''tok'')] \<and>
   fetchResponse (sample_env (Some ''tok'') (Inr (Some sample_credential)))
     (apiOrigin (sample_env (Some ''tok'') (Inr (Some sample_credential)))
        @ ''/passkeys/registration/begin'')
     [(''X-Auth-Token'', ''tok'')]
     = Inr \<lparr>res_ok = True, res_status = 200, res_json = Inr sample_begin\<rparr> \<and>
   from_base64 (pk_challenge (reg_publicKey sample_begin)) = Inr [1, 2, 3] \<and>
   from_base64 (pk_user_id (reg_publicKey sample_begin)) = Inr [255, 255] \<and>
   credentialsCreate (sample_env (Some ''tok'') (Inr (Some sample_credential))) sample_options
     = Inr (Some sample_credential) \<and>
   take 2 (fst (registerPasskey (sample_env (Some ''tok'') (Inr (Some sample_credential))) ''laptop''))
     = [Fetch ''https://api.ente.io/passkeys/registration/begin'' [(''X-Auth-Token'', ''tok'')],
        CredentialsCreate sample_options] \<and>
   fst (registerPasskey (sample_env (Some ''tok'') (Inr (Some sample_credential))) ''laptop'')
     = [Fetch ''https://api.ente.io/passkeys/registration/begin'' [(''X-Auth-Token'', ''tok'')],
        CredentialsCreate sample_options,
        HTTPService
          \<lparr>req_method = POST,
           req_url = ''https://api.ente.io/passkeys/registration/finish'',
           req_data = JSON_stringify (JObj
             [(''id'', JStr ''Y3JlZA''), (''rawId'', JStr ''Y3JlZA''),
              (''type'', JStr ''public-key''),
              (''response'', JObj
                 [(''attestationObject'', JStr ''AP8''), (''clientDataJSON'', JStr ''e30'')])]),
           req_params = Some [(''friendlyName'', ''laptop''), (''sessionID'', ''session-1'')],
           req_headers = Some [(''X-Auth-Token'', ''tok'')]\<rparr>]"
proof -
  let ?env = "sample_env (Some ''tok'') (Inr (Some sample_credential))"
  let ?res = "\<lparr>res_ok = True, res_status = 200, res_json = Inr sample_begin\<rparr>"
  have h1: "getToken ?env = Some ''tok''" by (simp add: sample_env_def)
  have h3: "accountsAuthenticatedRequestHeaders ?env = Inr [(''X-Auth-Token'', ''tok'')]"
    by (rule sample_headers)
  have h4: "fetchResponse ?env (apiOrigin ?env @ ''/passkeys/registration/begin'')
              [(''X-Auth-Token'', ''tok'')] = Inr ?res"
    by (simp add: sample_env_def)
  have h5: "res_ok ?res" by simp
  have h6: "res_json ?res = Inr sample_begin" by simp
  have h7: "from_base64 (pk_challenge (reg_publicKey sample_begin)) = Inr [1, 2, 3]"
    by (simp add: sample_begin_def from_base64_AQID)
  have h8: "from_base64 (pk_user_id (reg_publicKey sample_begin)) = Inr [255, 255]"
    by (simp add: sample_begin_def from_base64_8)
  have h9: "sample_options = \<lparr>pk_challenge = [1, 2, 3], pk_user_id = [255, 255],
                      pk_other = pk_other (reg_publicKey sample_begin)\<rparr>"
    by (simp add: sample_options_def sample_begin_def)
  have h10: "credentialsCreate ?env sample_options = Inr (Some sample_credential)"
    by (simp add: sample_env_def)
  note run = registerPasskey_decodes_and_encodes [OF h1 h3 h4 h5 h6 h7 h8 h9, of "''laptop''"]
  from run have first: "take 2 (fst (registerPasskey ?env ''laptop'')) =
      [Fetch (apiOrigin ?env @ ''/passkeys/registration/begin'') [(''X-Auth-Token'', ''tok'')],
       CredentialsCreate sample_options]"
    by (rule conjunct1)
  from run h10 have whole: "fst (registerPasskey ?env ''laptop'') =
      [Fetch (apiOrigin ?env @ ''/passkeys/registration/begin'') [(''X-Auth-Token'', ''tok'')],
       CredentialsCreate sample_options,
       HTTPService
         \<lparr>req_method = POST,
          req_url = ENDPOINT ?env @ ''/passkeys/registration/finish'',
          req_data = JSON_stringify (JObj
            [(''id'', JStr (cred_id sample_credential)),
             (''rawId'', JStr (cred_id sample_credential)),
             (''type'', JStr (cred_type sample_credential)),
             (''response'', JObj
                [(''attestationObject'', JStr (toB64URLSafeNoPadding
                    (new_Uint8Array (attestationObject (cred_response sample_credential))))),
                 (''clientDataJSON'', JStr (toB64URLSafeNoPadding
                    (new_Uint8Array (clientDataJSON (cred_response sample_credential)))))])]),
          req_params = Some [(''friendlyName'', ''laptop''), (''sessionID'', reg_sessionID sample_begin)],
          req_headers = Some [(''X-Auth-Token'', ''tok'')]\<rparr>]"
    by blast
  have origin: "apiOrigin ?env = ''https://api.ente.io''" "ENDPOINT ?env = ''https://api.ente.io''"
    by (simp_all add: sample_env_def)
  have cred: "cred_id sample_credential = ''Y3JlZA''" "cred_type sample_credential = ''public-key''"
    "toB64URLSafeNoPadding (new_Uint8Array (attestationObject (cred_response sample_credential))) = ''AP8''"
    "toB64URLSafeNoPadding (new_Uint8Array (clientDataJSON (cred_response sample_credential))) = ''e30''"
    "reg_sessionID sample_begin = ''session-1''"
    by (simp_all add: sample_credential_def sample_begin_def new_Uint8Array_def
        toB64_0_255 toB64_123_125)
  from first whole h1 h3 h4 h7 h8 h10 show ?thesis
    by (simp add: origin cred)
qed

text \<open>
  Claim C9, as amended. In every request the two finish functions send, the payload's
  \<open>rawId\<close> field and its \<open>id\<close> field are both the credential's string identifier
  \<open>credential.id\<close>. The \<open>rawId\<close> sent is therefore the encoding of the credential's binary
  \<open>rawId\<close> exactly when \<open>credential.id\<close> is that encoding.
\<close>

theorem finish_payload_rawId_is_id:
  "(\<forall>r \<in> set (requests (fst (finishPasskeyRegistration env friendlyName credential sessionID))).
      payload_field (req_data r) ''rawId'' = Some (JStr (cred_id credential)) \<and>
      payload_field (req_data r) ''id'' = Some (JStr (cred_id credential)) \<and>
      (payload_field (req_data r) ''rawId''
           = Some (JStr (toB64URLSafeNoPadding (cred_rawId credential)))
         \<longleftrightarrow> cred_id credential = toB64URLSafeNoPadding (cred_rawId credential))) \<and>
   (\<forall>r \<in> set (requests (fst (finishPasskeyAuthentication env credential sessionId ceremonySessionId))).
      payload_field (req_data r) ''rawId'' = Some (JStr (cred_id credential)) \<and>
      payload_field (req_data r) ''id'' = Some (JStr (cred_id credential)) \<and>
      (payload_field (req_data r) ''rawId''
           = Some (JStr (toB64URLSafeNoPadding (cred_rawId credential)))
         \<longleftrightarrow> cred_id credential = toB64URLSafeNoPadding (cred_rawId credential)))"
proof -
  have a: "\<forall>r \<in> set (requests (fst (finishPasskeyRegistration env friendlyName credential sessionID))).
      payload_field (req_data r) ''rawId'' = Some (JStr (cred_id credential)) \<and>
      payload_field (req_data r) ''id'' = Some (JStr (cred_id credential)) \<and>
      (payload_field (req_data r) ''rawId''
           = Some (JStr (toB64URLSafeNoPadding (cred_rawId credential)))
         \<longleftrightarrow> cred_id credential = toB64URLSafeNoPadding (cred_rawId credential))"
    by (cases "getToken env")
       (simp_all add: finishPasskeyRegistration_def ensure_def throws_def httpService_def Let_def)
  have b: "\<forall>r \<in> set (requests (fst (finishPasskeyAuthentication env credential sessionId ceremonySessionId))).
      payload_field (req_data r) ''rawId'' = Some (JStr (cred_id credential)) \<and>
      payload_field (req_data r) ''id'' = Some (JStr (cred_id credential)) \<and>
      (payload_field (req_data r) ''rawId''
           = Some (JStr (toB64URLSafeNoPadding (cred_rawId credential)))
         \<longleftrightarrow> cred_id credential = toB64URLSafeNoPadding (cred_rawId credential))"
    by (simp add: finishPasskeyAuthentication_def httpService_def requests_tryCatchLog)
  from a b show ?thesis by blast
qed

theorem finish_payload_rawId_is_id_witness:
  "map (\<lambda>r. (payload_field (req_data r) ''rawId'', payload_field (req_data r) ''id''))
     (requests (fst (finishPasskeyRegistration (sample_env (Some ''tok'') (Inr None))
                       ''laptop'' sample_credential ''session-1'')))
     = [(Some (JStr ''Y3JlZA''), Some (JStr ''Y3JlZA''))] \<and>
   map (\<lambda>r. (payload_field (req_data r) ''rawId'', payload_field (req_data r) ''id''))
     (requests (fst (finishPasskeyAuthentication (sample_env (Some ''tok'') (Inr None))
                       sample_credential ''session-1'' ''ceremony-1'')))
     = [(Some (JStr ''Y3JlZA''), Some (JStr ''Y3JlZA''))]"
proof -
  let ?env = "sample_env (Some ''tok'') (Inr None)"
  have tok: "getToken ?env = Some ''tok''"
    by (simp add: sample_env_def)
  have reg: "\<exists>r. requests (fst (finishPasskeyRegistration ?env ''laptop'' sample_credential ''session-1''))
                 = [r]"
    by (simp add: fst_finishPasskeyRegistration [OF tok])
  have auth: "\<exists>r. requests (fst (finishPasskeyAuthentication ?env sample_credential
                                     ''session-1'' ''ceremony-1'')) = [r]"
    by (simp add: finishPasskeyAuthentication_def httpService_def requests_tryCatchLog)
  have ident: "cred_id sample_credential = ''Y3JlZA''"
    by (simp add: sample_credential_def)
  from finish_payload_rawId_is_id
    [of ?env "''laptop''" sample_credential "''session-1''" "''session-1''" "''ceremony-1''"]
    reg auth
  show ?thesis by (auto simp: ident)
qed

text \<open>
  Claim C9 as stated adds that the \<open>rawId\<close> sent is never the encoded raw binary
  identifier. That fails for the sample credential, whose \<open>id\<close> is the encoding of its
  binary \<open>rawId\<close>, as a public-key credential's is: in both ceremonies the \<open>rawId\<close> sent
  is then exactly the encoded binary identifier.
\<close>

theorem finish_payload_rawId_encoded_counterexample:
  "rawIds_sent (fst (finishPasskeyRegistration (sample_env (Some ''tok'') (Inr None))
                       ''laptop'' sample_credential ''session-1''))
     = [Some (JStr (toB64URLSafeNoPadding (cred_rawId sample_credential)))] \<and>
   rawIds_sent (fst (finishPasskeyAuthentication (sample_env (Some ''tok'') (Inr None))
                       sample_credential ''session-1'' ''ceremony-1''))
     = [Some (JStr (toB64URLSafeNoPadding (cred_rawId sample_credential)))]"
proof -
  let ?env = "sample_env (Some ''tok'') (Inr None)"
  have tok: "getToken ?env = Some ''tok''"
    by (simp add: sample_env_def)
  have enc: "toB64URLSafeNoPadding (cred_rawId sample_credential) = cred_id sample_credential"
    by (simp add: sample_credential_def toB64_99_114_101_100)
  have reg: "rawIds_sent (fst (finishPasskeyRegistration ?env ''laptop'' sample_credential
                                 ''session-1'')) = [Some (JStr (cred_id sample_credential))]"
    by (simp add: rawIds_sent_def fst_finishPasskeyRegistration [OF tok])
  have auth: "rawIds_sent (fst (finishPasskeyAuthentication ?env sample_credential
                                  ''session-1'' ''ceremony-1''))
                = [Some (JStr (cred_id sample_credential))]"
    by (simp add: rawIds_sent_def finishPasskeyAuthentication_def httpService_def
        requests_tryCatchLog)
  from reg auth show ?thesis by (simp add: enc)
qed

subsection \<open>Authentication\<close>

text \<open>
  Claim C2. For all strings \<open>sessionId\<close> and \<open>ceremonySessionId\<close>,
  \<open>finishPasskeyAuthentication\<close> sends exactly one request, and that request carries
  \<open>sessionId\<close> as its \<open>sessionID\<close> and \<open>ceremonySessionId\<close> as its \<open>ceremonySessionID\<close>,
  character for character.
\<close>

theorem finishPasskeyAuthentication_echoes_sessions:
  "map req_params
     (requests (fst (finishPasskeyAuthentication env credential sessionId ceremonySessionId))) =
     [Some [(''sessionID'', sessionId), (''ceremonySessionID'', ceremonySessionId)]]"
  by (simp add: finishPasskeyAuthentication_def httpService_def requests_tryCatchLog)

text \<open>
  Claim C8. For every login session identifier, \<open>beginPasskeyAuthentication\<close> sends exactly
  one request, the POST of the identifier to the begin endpoint, with no headers at all
  (so no auth token header); its outcome is the transport's answer to that request, value
  or thrown error, and nothing else; and the whole run is the same whatever token is
  stored, present or absent.
\<close>

theorem beginPasskeyAuthentication_ignores_token:
  "requests (fst (beginPasskeyAuthentication env sessionId)) =
     [\<lparr>req_method = POST, req_url = ENDPOINT env @ ''/users/two-factor/passkeys/begin'',
       req_data = Object (JObj [(''sessionID'', JStr sessionId)]),
       req_params = None, req_headers = None\<rparr>] \<and>
   snd (beginPasskeyAuthentication env sessionId) =
     httpResponse env
      \<lparr>req_method = POST, req_url = ENDPOINT env @ ''/users/two-factor/passkeys/begin'',
       req_data = Object (JObj [(''sessionID'', JStr sessionId)]),
       req_params = None, req_headers = None\<rparr> \<and>
   beginPasskeyAuthentication (env\<lparr>getToken := token\<rparr>) sessionId =
     beginPasskeyAuthentication env sessionId"
  by (simp add: beginPasskeyAuthentication_def httpService_def requests_tryCatchLog snd_tryCatchLog)

end
